theory Spec2Isabelle
  imports
    Complex_Main
    "HOL-Library.AList"
    "HOL-Library.Char_ord"
    "HOL-Library.List_Lexorder"
    "HOL-Library.Product_Lexorder"
begin

section \<open>Numbers, columns and tables\<close>

text \<open>
  A float64 cell is either NaN or a number. Numbers are exact rationals: rounding and the
  infinities of binary floating point are outside this model. Arithmetic propagates NaN
  and every comparison with NaN is false, as in IEEE 754 and numpy.
\<close>

datatype float64 = NaN | Val rat

fun fadd :: "float64 \<Rightarrow> float64 \<Rightarrow> float64" where
  "fadd (Val a) (Val b) = Val (a + b)"
| "fadd _ _ = NaN"

fun fsub :: "float64 \<Rightarrow> float64 \<Rightarrow> float64" where
  "fsub (Val a) (Val b) = Val (a - b)"
| "fsub _ _ = NaN"

fun fmul :: "float64 \<Rightarrow> float64 \<Rightarrow> float64" where
  "fmul (Val a) (Val b) = Val (a * b)"
| "fmul _ _ = NaN"

fun flt :: "float64 \<Rightarrow> float64 \<Rightarrow> bool" where
  "flt (Val a) (Val b) = (a < b)"
| "flt _ _ = False"

fun fgt :: "float64 \<Rightarrow> float64 \<Rightarrow> bool" where
  "fgt (Val a) (Val b) = (b < a)"
| "fgt _ _ = False"

fun isna :: "float64 \<Rightarrow> bool" where
  "isna NaN = True"
| "isna (Val _) = False"

text \<open>
  A column as \<open>pd.read_csv\<close> types it: int64 (no missing cell), float64 (NaN is the
  missing cell) or object (a string, or missing). A table is the list of its named
  columns in file order; its index is the default \<open>0 .. n-1\<close>, so a row is a position.
\<close>

datatype column = IntCol "int list" | FloatCol "float64 list" | ObjCol "string option list"

type_synonym frame = "(string \<times> column) list"

fun col_len :: "column \<Rightarrow> nat" where
  "col_len (IntCol xs) = length xs"
| "col_len (FloatCol xs) = length xs"
| "col_len (ObjCol xs) = length xs"

definition columns :: "frame \<Rightarrow> string list" where
  "columns df = map fst df"

fun nrows :: "frame \<Rightarrow> nat" where
  "nrows [] = 0"
| "nrows ((_, col) # _) = col_len col"

definition wf_frame :: "frame \<Rightarrow> bool" where
  "wf_frame df = (distinct (columns df) \<and> list_all (\<lambda>(_, col). col_len col = nrows df) df)"

datatype error = KeyError string | ValueError | TypeError | LibraryError string

text \<open>
  What a script prints. The wording of a message is not modelled, only its kind and the
  values it carries; \<open>Report\<close> stands for a table or a block of LaTeX printed for the
  reader. \<open>Log\<close> is a line of \<open>export_data.log\<close>, which prefixes the time of day.
\<close>

datatype log_msg =
    NoDataObject
  | NeitherFeaturesNorTargets
  | SavedFeatures nat nat
  | SaveFeaturesFailed error
  | SavedTargets nat nat
  | SaveTargetsFailed error
  | RenamedTargets "(string \<times> string) list"
  | SavedCombined nat nat
  | CombinedFailed error
  | CombinedSkipped

datatype line =
    ErrorInputMissing string
  | InfoLoaded string nat nat
  | InfoVariables "string list"
  | WarningNoVariables
  | WarningSkipped string
  | OkSaved string
  | Report
  | Log log_msg

text \<open>
  How a run ends: the function returns, \<open>sys.exit(n)\<close> is called, or an exception
  nobody catches ends the script.
\<close>

datatype status = Returned | Exited nat | Raised error

text \<open>
  The operating system and the pandas and scipy routines the scripts call. Their code is
  not part of the repository, so they are parameters of the model:
  \<^item> \<open>makedirs p ps\<close>: the paths that exist after \<open>os.makedirs(p, exist_ok=True)\<close> when
    \<open>ps\<close> existed before;
  \<^item> \<open>read_csv p\<close>: the table \<open>pd.read_csv\<close> builds from the file at \<open>p\<close>, or the
    exception it raises;
  \<^item> \<open>write_error p\<close>: the exception that writing the file \<open>p\<close> raises, if any;
  \<^item> \<open>parse_float s\<close>: the number \<open>pd.to_numeric(errors="coerce")\<close> reads from the
    string \<open>s\<close>, NaN when it is not a number;
  \<^item> \<open>quantile s q\<close>: \<open>Series.quantile(q)\<close> of a numeric series;
  \<^item> \<open>shapiro\<close>, \<open>mannwhitneyu\<close>: the statistic and the p-value of the test, or the
    exception it raises.
\<close>

record platform =
  makedirs :: "string \<Rightarrow> string list \<Rightarrow> string list"
  read_csv :: "string \<Rightarrow> error + frame"
  write_error :: "string \<Rightarrow> error option"
  parse_float :: "string \<Rightarrow> float64"
  quantile :: "float64 list \<Rightarrow> rat \<Rightarrow> float64"
  shapiro :: "column \<Rightarrow> error + float64 \<times> float64"
  mannwhitneyu :: "column \<Rightarrow> column \<Rightarrow> error + float64 \<times> float64"

text \<open>\<open>pd.to_numeric(df[c], errors="coerce")\<close>.\<close>

fun to_numeric :: "platform \<Rightarrow> column \<Rightarrow> float64 list" where
  "to_numeric P (IntCol xs) = map (\<lambda>i. Val (of_int i)) xs"
| "to_numeric P (FloatCol xs) = xs"
| "to_numeric P (ObjCol xs) = map (\<lambda>x. case x of None \<Rightarrow> NaN | Some s \<Rightarrow> parse_float P s) xs"

section \<open>outlier.py\<close>

definition DEFAULT_CONTINUOUS :: "string list" where
  "DEFAULT_CONTINUOUS = [''BMI'', ''MentHlth'', ''PhysHlth'']"

type_synonym mask_map = "(string \<times> bool list) list"
type_synonym bounds_map = "(string \<times> float64 \<times> float64) list"

text \<open>
  The body of the loop of \<open>detect_outliers_iqr\<close> for one column \<open>c\<close>: its mask and its
  bounds. \<open>df[c]\<close> raises KeyError when the table has no column \<open>c\<close>.
\<close>

definition iqr_column ::
  "platform \<Rightarrow> frame \<Rightarrow> float64 \<Rightarrow> string \<Rightarrow> error + bool list \<times> float64 \<times> float64"
where
  "iqr_column P df k c =
     (case map_of df c of
        None \<Rightarrow> Inl (KeyError c)
      | Some col \<Rightarrow>
          let s = to_numeric P col;
              q1 = quantile P s (1 / 4);
              q3 = quantile P s (3 / 4);
              iqr = fsub q3 q1
          in if isna iqr \<or> iqr = Val 0
             then Inr (replicate (nrows df) False, (NaN, NaN))
             else
               let lower = fsub q1 (fmul k iqr);
                   upper = fadd q3 (fmul k iqr);
                   mask = map (\<lambda>x. (flt x lower \<or> fgt x upper) \<and> \<not> isna x) s
               in Inr (mask, (lower, upper)))"

text \<open>
  The loop over \<open>cols\<close>. The two dictionaries are association lists in insertion order;
  \<open>AList.update\<close> is Python's item assignment (a key already there keeps its place).
\<close>

fun iqr_loop ::
  "platform \<Rightarrow> frame \<Rightarrow> float64 \<Rightarrow> string list \<Rightarrow> mask_map \<times> bounds_map \<Rightarrow> error + mask_map \<times> bounds_map"
where
  "iqr_loop P df k [] acc = Inr acc"
| "iqr_loop P df k (c # cs) acc =
     (case iqr_column P df k c of
        Inl e \<Rightarrow> Inl e
      | Inr (m, b) \<Rightarrow>
          iqr_loop P df k cs (AList.update c m (fst acc), AList.update c b (snd acc)))"

definition detect_outliers_iqr ::
  "platform \<Rightarrow> frame \<Rightarrow> string list \<Rightarrow> float64 \<Rightarrow> error + mask_map \<times> bounds_map"
where
  "detect_outliers_iqr P df cols k = iqr_loop P df k cols ([], [])"

text \<open>\<open>[c for c in DEFAULT_CONTINUOUS if c in df.columns]\<close> of \<open>main\<close>.\<close>

definition continuous_cols :: "frame \<Rightarrow> string list" where
  "continuous_cols df = filter (\<lambda>c. c \<in> set (columns df)) DEFAULT_CONTINUOUS"

subsection \<open>Summary and long-form tables\<close>

type_synonym mask_groups = "(string \<times> mask_map) list"

record summary_row =
  method_name :: string
  column_name :: string
  n_outliers :: nat
  pct_outliers :: float64

record index_row =
  idx_method :: string
  idx_column :: string
  row_index :: nat

text \<open>\<open>m.sum()\<close> and \<open>m.mean() * 100.0\<close> of a boolean series; the mean of no rows is NaN.\<close>

definition mask_sum :: "bool list \<Rightarrow> nat" where
  "mask_sum m = length (filter (\<lambda>b. b) m)"

definition mask_pct :: "bool list \<Rightarrow> float64" where
  "mask_pct m =
     (if m = [] then NaN else Val (of_nat (mask_sum m) / of_nat (length m) * 100))"

definition summary_rows :: "mask_groups \<Rightarrow> summary_row list" where
  "summary_rows mg =
     concat (map (\<lambda>(meth, masks).
       map (\<lambda>(c, m). \<lparr>method_name = meth, column_name = c,
                         n_outliers = mask_sum m, pct_outliers = mask_pct m\<rparr>) masks) mg)"

text \<open>
  \<open>summarize_masks\<close>: the rows sorted by column, then method. A table built from no rows
  has no columns, and sorting it by \<open>column\<close> raises KeyError.
\<close>

definition summarize_masks :: "mask_groups \<Rightarrow> error + summary_row list" where
  "summarize_masks mg =
     (let rows = summary_rows mg
      in if rows = [] then Inl (KeyError ''column'')
         else Inr (sort_key (\<lambda>r. (column_name r, method_name r)) rows))"

text \<open>\<open>m[m].index.tolist()\<close>: the positions where the mask is true, ascending.\<close>

definition true_indices :: "bool list \<Rightarrow> nat list" where
  "true_indices m = filter (\<lambda>i. m ! i) [0 ..< length m]"

definition masks_to_long_indices :: "mask_groups \<Rightarrow> index_row list" where
  "masks_to_long_indices mg =
     concat (map (\<lambda>(meth, masks).
       concat (map (\<lambda>(c, m).
         map (\<lambda>i. \<lparr>idx_method = meth, idx_column = c, row_index = i\<rparr>) (true_indices m)) masks)) mg)"

subsection \<open>The flagged table\<close>

definition endswith :: "string \<Rightarrow> string \<Rightarrow> bool" where
  "endswith s suffix = (length suffix \<le> length s \<and> drop (length s - length suffix) s = suffix)"

text \<open>\<open>m.astype(int)\<close>.\<close>

definition astype_int :: "bool list \<Rightarrow> int list" where
  "astype_int m = map (\<lambda>b. if b then 1 else 0) m"

text \<open>
  The loop \<open>flagged_df[f"{c}__iqr_outlier"] = m.astype(int)\<close> over every method and
  column. Assigning to a name the table already has replaces that column in place.
\<close>

fun add_flag_columns :: "mask_map \<Rightarrow> frame \<Rightarrow> frame" where
  "add_flag_columns [] flagged_df = flagged_df"
| "add_flag_columns ((c, m) # masks) flagged_df =
     add_flag_columns masks (AList.update (c @ ''__iqr_outlier'') (IntCol (astype_int m)) flagged_df)"

fun add_flag_groups :: "mask_groups \<Rightarrow> frame \<Rightarrow> frame" where
  "add_flag_groups [] flagged_df = flagged_df"
| "add_flag_groups ((meth, masks) # mg) flagged_df =
     add_flag_groups mg (add_flag_columns masks flagged_df)"

text \<open>
  \<open>flagged_df[flag_cols].sum(axis=1)\<close>: the sum of each row over the chosen columns,
  missing cells skipped. Adding a string to a number raises TypeError.
\<close>

fun summable :: "column \<Rightarrow> error + rat list" where
  "summable (IntCol xs) = Inr (map of_int xs)"
| "summable (FloatCol xs) = Inr (map (\<lambda>x. case x of NaN \<Rightarrow> 0 | Val v \<Rightarrow> v) xs)"
| "summable (ObjCol xs) = Inl TypeError"

fun row_sums :: "frame \<Rightarrow> string list \<Rightarrow> error + rat list" where
  "row_sums df [] = Inr (replicate (nrows df) 0)"
| "row_sums df (c # cs) =
     (case map_of df c of
        None \<Rightarrow> Inl (KeyError c)
      | Some col \<Rightarrow>
          (case summable col of
             Inl e \<Rightarrow> Inl e
           | Inr vs \<Rightarrow>
               (case row_sums df cs of
                  Inl e \<Rightarrow> Inl e
                | Inr acc \<Rightarrow> Inr (map (\<lambda>(v, a). v + a) (zip vs acc)))))"

definition flag_cols :: "frame \<Rightarrow> string list" where
  "flag_cols flagged_df = filter (\<lambda>c. endswith c ''__iqr_outlier'') (columns flagged_df)"

definition any_outlier_flag :: "frame \<Rightarrow> error + int list" where
  "any_outlier_flag flagged_df =
     (if flag_cols flagged_df \<noteq> []
      then (case row_sums flagged_df (flag_cols flagged_df) of
              Inl e \<Rightarrow> Inl e
            | Inr totals \<Rightarrow> Inr (astype_int (map (\<lambda>v. 0 < v) totals)))
      else Inr (replicate (nrows flagged_df) 0))"

text \<open>The table written to \<open>outliers_flagged.csv\<close>.\<close>

definition flagged_table :: "mask_groups \<Rightarrow> frame \<Rightarrow> error + frame" where
  "flagged_table mg df =
     (let flagged_df = add_flag_groups mg df
      in case any_outlier_flag flagged_df of
           Inl e \<Rightarrow> Inl e
         | Inr flags \<Rightarrow> Inr (AList.update ''__any_outlier_flag'' (IntCol flags) flagged_df))"

section \<open>normality_test.py and mann_whitney_test.py\<close>



record normality_row =
  variable :: string
  statistic :: float64
  p_value :: float64
  normality :: bool







record mw_row =
  mw_variable :: string
  u_statistic :: float64
  mw_p_value :: float64
  significant :: bool





section \<open>class_stats.py\<close>

datatype cell = IntCell int | FloatCell rat | StrCell string

fun non_missing :: "column \<Rightarrow> cell list" where
  "non_missing (IntCol xs) = map IntCell xs"
| "non_missing (FloatCol xs) = concat (map (\<lambda>x. case x of NaN \<Rightarrow> [] | Val v \<Rightarrow> [FloatCell v]) xs)"
| "non_missing (ObjCol xs) = concat (map (\<lambda>x. case x of None \<Rightarrow> [] | Some t \<Rightarrow> [StrCell t]) xs)"

fun dtype :: "column \<Rightarrow> string" where
  "dtype (IntCol _) = ''int64''"
| "dtype (FloatCol _) = ''float64''"
| "dtype (ObjCol _) = ''object''"

text \<open>\<open>Series.nunique()\<close>: how many different values, the missing cell not counted.\<close>

definition nunique :: "column \<Rightarrow> nat" where
  "nunique col = length (remdups (non_missing col))"


definition is_categorical :: "column \<Rightarrow> bool" where
  "is_categorical col =
     (if dtype col = ''object'' then True
      else if dtype col \<in> set [''int64'', ''float64''] then nunique col \<le> 10
      else False)"

text \<open>
  The classification loop of \<open>class_stats.main\<close>, then the removal of the target column
  (\<open>list.remove\<close> deletes the first occurrence).
\<close>

definition categorical_cols :: "frame \<Rightarrow> string list" where
  "categorical_cols df =
     (let cols = map fst (filter (\<lambda>(name, col). is_categorical col) df)
      in if ''Diabetes_binary'' \<in> set cols then remove1 ''Diabetes_binary'' cols else cols)"



record class_row =
  cs_variable :: string
  category :: cell
  count_of :: nat
  percentage :: rat



section \<open>Running a script\<close>

text \<open>
  What a script leaves behind: the paths that exist, the files it has read, the lines on
  its two output streams and the files it has written, oldest first.
\<close>

datatype artifact =
    TableCsv frame
  | SummaryCsv "summary_row list"
  | IndicesCsv "index_row list"
  | MetaJson string "nat \<times> nat" "string list" float64 bounds_map
  | NormalityCsv "normality_row list"
  | MannWhitneyCsv "mw_row list"
  | ClassStatsCsv "class_row list"

record world =
  existing :: "string list"
  reads :: "string list"
  stdout :: "line list"
  stderr :: "line list"
  written :: "(string \<times> artifact) list"

definition print :: "line \<Rightarrow> world \<Rightarrow> world" where
  "print l w = w\<lparr>stdout := stdout w @ [l]\<rparr>"

text \<open>\<open>os.path.join(a, b)\<close> for a relative \<open>b\<close>.\<close>

definition path_join :: "string \<Rightarrow> string \<Rightarrow> string" where
  "path_join a b = (if a = [] then b else if last a = CHR ''/'' then a @ b else a @ ''/'' @ b)"

text \<open>Writing files one after the other; the first write that raises ends the sequence.\<close>

fun write_all :: "platform \<Rightarrow> (string \<times> artifact) list \<Rightarrow> world \<Rightarrow> error option \<times> world" where
  "write_all P [] w = (None, w)"
| "write_all P ((path, a) # rest) w =
     (case write_error P path of
        Some e \<Rightarrow> (Some e, w)
      | None \<Rightarrow> write_all P rest (w\<lparr>written := written w @ [(path, a)]\<rparr>))"


subsection \<open>outlier.main\<close>

definition outlier_body ::
  "platform \<Rightarrow> string \<Rightarrow> string \<Rightarrow> float64 \<Rightarrow> frame \<Rightarrow> world \<Rightarrow> status \<times> world"
where
  "outlier_body P in_path outdir k df w =
     (let continuous = continuous_cols df;
          w1 = print (InfoVariables continuous) w
      in if continuous = [] then (Returned, print WarningNoVariables w1)
         else (case detect_outliers_iqr P df continuous k of
                 Inl e \<Rightarrow> (Raised e, w1)
               | Inr (iqr_masks, iqr_bounds) \<Rightarrow>
                   let mask_groups = [(''iqr_outlier'', iqr_masks)]
                   in (case summarize_masks mask_groups of
                         Inl e \<Rightarrow> (Raised e, w1)
                       | Inr summary \<Rightarrow>
                           let indices_long = masks_to_long_indices mask_groups;
                               w2 = print Report w1
                           in (case flagged_table mask_groups df of
                                 Inl e \<Rightarrow> (Raised e, w2)
                               | Inr flagged_df \<Rightarrow>
                                   (case write_all P
                                      [(path_join outdir ''outliers_flagged.csv'', TableCsv flagged_df),
                                       (path_join outdir ''outliers_summary.csv'', SummaryCsv summary),
                                       (path_join outdir ''outliers_indices.csv'', IndicesCsv indices_long),
                                       (path_join outdir ''outliers_meta.json'',
                                          MetaJson in_path (nrows df, length df) continuous k iqr_bounds)]
                                      w2 of
                                      (Some e, w3) \<Rightarrow> (Raised e, w3)
                                    | (None, w3) \<Rightarrow> (Returned, print (OkSaved outdir) w3))))))"


subsection \<open>normality_test.main and mann_whitney_test.main\<close>





subsection \<open>class_stats.main\<close>



subsection \<open>numeric_stats.main, visualization.main and data_exploration.main\<close>




section \<open>export_data.py\<close>

text \<open>
  \<open>ds.data\<close> as ucimlrepo delivers it: a features table and targets that are a table or
  a single series with an optional name, either of which may be absent. Both come from
  one table and share its row index, so assigning a column of one to the other copies it
  as it is.
\<close>

datatype targets_obj = TargetSeries "string option" column | TargetFrame frame

record data_obj =
  features :: "frame option"
  targets :: "targets_obj option"

definition log :: "log_msg \<Rightarrow> world \<Rightarrow> world" where
  "log msg w = print (Log msg) w"

text \<open>\<open>targets.to_frame(name=targets.name or "target")\<close> for a series, the table itself otherwise.\<close>

fun to_frame :: "targets_obj \<Rightarrow> frame" where
  "to_frame (TargetSeries name col) =
     [(case name of None \<Rightarrow> ''target'' | Some n \<Rightarrow> if n = [] then ''target'' else n, col)]"
| "to_frame (TargetFrame t) = t"

text \<open>The loop that fills \<open>rename_map\<close>, a dictionary.\<close>

fun rename_map :: "frame \<Rightarrow> string list \<Rightarrow> (string \<times> string) list \<Rightarrow> (string \<times> string) list" where
  "rename_map combined [] acc = acc"
| "rename_map combined (c # cs) acc =
     rename_map combined cs
       (if c \<in> set (columns combined) then AList.update c (c @ ''_target'') acc else acc)"

text \<open>\<open>target_df.rename(columns=rename_map)\<close>.\<close>

definition rename_columns :: "(string \<times> string) list \<Rightarrow> frame \<Rightarrow> frame" where
  "rename_columns rm df =
     map (\<lambda>(name, col). (case map_of rm name of None \<Rightarrow> name | Some name' \<Rightarrow> name', col)) df"

text \<open>
  The loop \<open>combined[c] = target_df[c]\<close>. A name that \<open>target_df\<close> carries more than once
  selects a table of several columns, and setting it as one column raises ValueError. A
  name \<open>combined\<close> already has is replaced in place.
\<close>

fun assign_columns :: "frame \<Rightarrow> string list \<Rightarrow> frame \<Rightarrow> error + frame" where
  "assign_columns target_df [] combined = Inr combined"
| "assign_columns target_df (c # cs) combined =
     (if 1 < length (filter (\<lambda>name. name = c) (columns target_df)) then Inl ValueError
      else (case map_of target_df c of
              None \<Rightarrow> Inl (KeyError c)
            | Some col \<Rightarrow> assign_columns target_df cs (AList.update c col combined)))"

text \<open>
  One \<open>try\<close> block that saves a table: the file and the line that reports its shape, or
  the line that reports the exception.
\<close>

definition save_csv ::
  "platform \<Rightarrow> string \<Rightarrow> frame \<Rightarrow> (nat \<Rightarrow> nat \<Rightarrow> log_msg) \<Rightarrow> (error \<Rightarrow> log_msg) \<Rightarrow> world \<Rightarrow> world"
where
  "save_csv P path df saved failed w =
     (case write_error P path of
        Some e \<Rightarrow> log (failed e) w
      | None \<Rightarrow> log (saved (nrows df) (length df)) (w\<lparr>written := written w @ [(path, TableCsv df)]\<rparr>))"

text \<open>The \<open>try\<close> block that builds and saves \<open>combined.csv\<close>.\<close>

definition save_combined :: "platform \<Rightarrow> string \<Rightarrow> frame \<Rightarrow> frame \<Rightarrow> world \<Rightarrow> world" where
  "save_combined P outdir feats target_df w =
     (let rm = rename_map feats (columns target_df) [];
          w1 = (if rm \<noteq> [] then log (RenamedTargets rm) w else w);
          target_df' = (if rm \<noteq> [] then rename_columns rm target_df else target_df)
      in case assign_columns target_df' (columns target_df') feats of
           Inl e \<Rightarrow> log (CombinedFailed e) w1
         | Inr combined \<Rightarrow>
             save_csv P (path_join outdir ''combined.csv'') combined SavedCombined CombinedFailed w1)"

definition export_features_targets ::
  "platform \<Rightarrow> data_obj option \<Rightarrow> string \<Rightarrow> world \<Rightarrow> status \<times> world"
where
  "export_features_targets P data outdir w =
     (case data of
        None \<Rightarrow> (Returned, log NoDataObject w)
      | Some d \<Rightarrow>
          if features d = None \<and> targets d = None
          then (Returned, log NeitherFeaturesNorTargets w)
          else
            let w1 = (case features d of
                        None \<Rightarrow> w
                      | Some f \<Rightarrow>
                          save_csv P (path_join outdir ''features.csv'') f
                            SavedFeatures SaveFeaturesFailed w);
                target_df = map_option to_frame (targets d);
                w2 = (case target_df of
                        None \<Rightarrow> w1
                      | Some t \<Rightarrow>
                          save_csv P (path_join outdir ''targets.csv'') t
                            SavedTargets SaveTargetsFailed w1)
            in (case (features d, target_df) of
                  (Some f, Some t) \<Rightarrow> (Returned, save_combined P outdir f t w2)
                | _ \<Rightarrow> (Returned, log CombinedSkipped w2)))"

section \<open>A reference platform and sample tables\<close>

text \<open>
  The default of \<open>Series.quantile\<close>: linear interpolation between the two nearest of the
  sorted values that are not missing, NaN when there is none.
\<close>

fun finite_values :: "float64 list \<Rightarrow> rat list" where
  "finite_values [] = []"
| "finite_values (NaN # xs) = finite_values xs"
| "finite_values (Val v # xs) = v # finite_values xs"

definition quantile_linear :: "float64 list \<Rightarrow> rat \<Rightarrow> float64" where
  "quantile_linear s q =
     (let vs = sort (finite_values s); n = length vs
      in if n = 0 then NaN
         else let h = of_nat (n - 1) * q;
                  lo = nat \<lfloor>h\<rfloor>;
                  hi = min (lo + 1) (n - 1)
              in Val (vs ! lo + (vs ! hi - vs ! lo) * (h - of_nat lo)))"

text \<open>
  A platform for the examples: every write succeeds, the only file is \<open>data.csv\<close>, no
  string is a number, and the two tests answer with fixed numbers chosen by the size of
  the sample.
\<close>

definition sample_table :: frame where
  "sample_table =
     [(''BMI'', IntCol [1, 2, 3, 100, 4]),
      (''MentHlth'', FloatCol [Val 0, NaN, Val 0, Val 0, Val 0]),
      (''Smoker'', ObjCol [Some ''yes'', Some ''no'', None, Some ''no'', Some ''no'']),
      (''Diabetes_binary'', IntCol [0, 1, 0, 1, 0])]"

text \<open>A table that already carries a column named like a flag, as a flagged copy does.\<close>

definition flagged_input_table :: frame where
  "flagged_input_table =
     [(''BMI'', IntCol [1, 2, 3, 100, 4]),
      (''BMI__iqr_outlier'', IntCol [7, 7, 7, 7, 7])]"


text \<open>
  A dataset whose features already have a column named like a renamed target: \<open>y\<close> and
  \<open>y_target\<close> in the features, \<open>y\<close> in the targets.
\<close>

definition colliding_data :: data_obj where
  "colliding_data =
     \<lparr>features = Some [(''y'', IntCol [1, 2]), (''y_target'', IntCol [3, 4])],
      targets = Some (TargetFrame [(''y'', IntCol [0, 1])])\<rparr>"

definition sample_platform :: platform where
  "sample_platform =
     \<lparr>makedirs = (\<lambda>p ps. if p \<in> set ps then ps else ps @ [p]),
      read_csv = (\<lambda>p. if p = ''data.csv'' then Inr sample_table else Inl (LibraryError ''read_csv'')),
      write_error = (\<lambda>p. None),
      parse_float = (\<lambda>s. NaN),
      quantile = quantile_linear,
      shapiro = (\<lambda>data. Inr (Val (9 / 10), if col_len data < 5 then Val (1 / 100) else Val (1 / 2))),
      mannwhitneyu = (\<lambda>data0 data1. Inr (Val 3, if col_len data0 < 3 then Val (1 / 2) else Val (1 / 100)))\<rparr>"

definition initial_world :: world where
  "initial_world = \<lparr>existing = [''data.csv''], reads = [], stdout = [], stderr = [], written = []\<rparr>"

section \<open>Properties of outlier detection\<close>

lemma update_fresh: "k \<notin> fst ` set al \<Longrightarrow> AList.update k v al = al @ [(k, v)]"
  by (induction al) auto

lemma iqr_loop_distinct:
  assumes "distinct cs" "set cs \<inter> fst ` set mm = {}" "set cs \<inter> fst ` set bb = {}"
    and "\<forall>c\<in>set cs. iqr_column P df k c = Inr (f c)"
  shows "iqr_loop P df k cs (mm, bb) =
     Inr (mm @ map (\<lambda>c. (c, fst (f c))) cs, bb @ map (\<lambda>c. (c, snd (f c))) cs)"
  using assms
proof (induction cs arbitrary: mm bb)
  case Nil
  then show ?case by simp
next
  case (Cons c cs)
  obtain m b where fc: "f c = (m, b)" by (cases "f c")
  have col: "iqr_column P df k c = Inr (m, b)" using Cons.prems(4) fc by simp
  have fm: "c \<notin> fst ` set mm" and fb: "c \<notin> fst ` set bb" using Cons.prems by auto
  have "iqr_loop P df k cs (mm @ [(c, m)], bb @ [(c, b)]) =
     Inr ((mm @ [(c, m)]) @ map (\<lambda>c. (c, fst (f c))) cs, (bb @ [(c, b)]) @ map (\<lambda>c. (c, snd (f c))) cs)"
    using Cons.prems by (intro Cons.IH) auto
  then show ?case using col fm fb fc by (simp add: update_fresh)
qed

lemma iqr_column_present:
  "map_of df c = Some col \<Longrightarrow> \<exists>r. iqr_column P df k c = Inr r"
  by (auto simp: iqr_column_def Let_def)

lemma distinct_continuous_cols: "distinct (continuous_cols df)"
  by (simp add: continuous_cols_def DEFAULT_CONTINUOUS_def)

lemma continuous_cols_present:
  assumes "c \<in> set (continuous_cols df)"
  shows "\<exists>col. map_of df c = Some col"
proof -
  have "c \<in> fst ` set df" using assms by (simp add: continuous_cols_def columns_def)
  then have "map_of df c \<noteq> None" by (simp add: map_of_eq_None_iff)
  then show ?thesis by auto
qed

text \<open>What \<open>detect_outliers_iqr\<close> returns on the columns \<open>main\<close> passes to it.\<close>

lemma detect_outliers_iqr_continuous:
  "\<exists>f. (\<forall>c\<in>set (continuous_cols df). iqr_column P df k c = Inr (f c)) \<and>
     detect_outliers_iqr P df (continuous_cols df) k =
       Inr (map (\<lambda>c. (c, fst (f c))) (continuous_cols df), map (\<lambda>c. (c, snd (f c))) (continuous_cols df))"
proof -
  define f where "f c = projr (iqr_column P df k c)" for c
  have a: "\<forall>c\<in>set (continuous_cols df). iqr_column P df k c = Inr (f c)"
  proof
    fix c assume "c \<in> set (continuous_cols df)"
    then obtain col where "map_of df c = Some col" using continuous_cols_present by blast
    then obtain r where "iqr_column P df k c = Inr r" using iqr_column_present by blast
    then show "iqr_column P df k c = Inr (f c)" by (simp add: f_def)
  qed
  have "iqr_loop P df k (continuous_cols df) ([], []) =
       Inr ([] @ map (\<lambda>c. (c, fst (f c))) (continuous_cols df), [] @ map (\<lambda>c. (c, snd (f c))) (continuous_cols df))"
    by (rule iqr_loop_distinct) (use a distinct_continuous_cols in auto)
  then show ?thesis using a by (auto simp: detect_outliers_iqr_def)
qed

lemma map_of_tagged: "c \<in> set cs \<Longrightarrow> map_of (map (\<lambda>c. (c, g c)) cs) c = Some (g c)"
  by (induction cs) auto


text \<open>
  C2. A row whose value is missing after coercion is not flagged, and when the IQR of a
  column is zero or NaN no row of it is flagged: its mask is false on every row of the
  table and its bounds are \<open>(NaN, NaN)\<close>.
\<close>

theorem detect_outliers_iqr_unflagged:
  assumes "c \<in> set (continuous_cols df)"
    and "map_of df c = Some col"
    and "s = to_numeric P col"
    and "iqr = fsub (quantile P s (3 / 4)) (quantile P s (1 / 4))"
  shows "\<exists>masks bounds m b.
           detect_outliers_iqr P df (continuous_cols df) k = Inr (masks, bounds) \<and>
           map_of masks c = Some m \<and>
           map_of bounds c = Some b \<and>
           (\<forall>i < length m. isna (s ! i) \<or> isna iqr \<or> iqr = Val 0 \<longrightarrow> \<not> m ! i) \<and>
           (isna iqr \<or> iqr = Val 0 \<longrightarrow> m = replicate (nrows df) False \<and> b = (NaN, NaN))"
proof -
  obtain f where f: "\<forall>c\<in>set (continuous_cols df). iqr_column P df k c = Inr (f c)"
    and d: "detect_outliers_iqr P df (continuous_cols df) k =
       Inr (map (\<lambda>c. (c, fst (f c))) (continuous_cols df), map (\<lambda>c. (c, snd (f c))) (continuous_cols df))"
    using detect_outliers_iqr_continuous by blast
  have fc: "iqr_column P df k c = Inr (f c)" using f assms(1) by blast
  have deg: "isna iqr \<or> iqr = Val 0 \<Longrightarrow> f c = (replicate (nrows df) False, (NaN, NaN))"
    using fc assms(2-4) by (simp add: iqr_column_def Let_def)
  have reg: "\<not> (isna iqr \<or> iqr = Val 0) \<Longrightarrow>
      \<exists>lo up. f c = (map (\<lambda>x. (flt x lo \<or> fgt x up) \<and> \<not> isna x) s, (lo, up))"
    using fc [symmetric] assms(2-4) by (simp add: iqr_column_def Let_def)
  have rows: "\<forall>i < length (fst (f c)). isna (s ! i) \<or> isna iqr \<or> iqr = Val 0 \<longrightarrow> \<not> fst (f c) ! i"
  proof (cases "isna iqr \<or> iqr = Val 0")
    case True
    then show ?thesis using deg by simp
  next
    case False
    then obtain lo up where "f c = (map (\<lambda>x. (flt x lo \<or> fgt x up) \<and> \<not> isna x) s, (lo, up))"
      using reg by blast
    then show ?thesis using False by simp
  qed
  have mm: "map_of (map (\<lambda>c. (c, fst (f c))) (continuous_cols df)) c = Some (fst (f c))"
    and mb: "map_of (map (\<lambda>c. (c, snd (f c))) (continuous_cols df)) c = Some (snd (f c))"
    using assms(1) by (simp_all add: map_of_tagged)
  have "isna iqr \<or> iqr = Val 0 \<longrightarrow> fst (f c) = replicate (nrows df) False \<and> snd (f c) = (NaN, NaN)"
    using deg by simp
  with d mm mb rows show ?thesis by blast
qed


lemma sample_BMI_in: "''BMI'' \<in> set (continuous_cols sample_table)"
  by (simp add: continuous_cols_def DEFAULT_CONTINUOUS_def columns_def sample_table_def)




lemma sample_MentHlth: "map_of sample_table ''MentHlth'' = Some (FloatCol [Val 0, NaN, Val 0, Val 0, Val 0])"
  by (simp add: sample_table_def)

lemma sample_MentHlth_in: "''MentHlth'' \<in> set (continuous_cols sample_table)"
  by (simp add: continuous_cols_def DEFAULT_CONTINUOUS_def columns_def sample_table_def)

lemma sample_MentHlth_iqr:
  "fsub (quantile sample_platform (to_numeric sample_platform (FloatCol [Val 0, NaN, Val 0, Val 0, Val 0])) (3 / 4))
        (quantile sample_platform (to_numeric sample_platform (FloatCol [Val 0, NaN, Val 0, Val 0, Val 0])) (1 / 4))
     = Val 0"
  by code_simp

theorem detect_outliers_iqr_unflagged_witness:
  "\<exists>masks bounds.
     detect_outliers_iqr sample_platform sample_table (continuous_cols sample_table) (Val (3 / 2))
       = Inr (masks, bounds) \<and>
     map_of masks ''MentHlth'' = Some (replicate 5 False) \<and>
     map_of bounds ''MentHlth'' = Some (NaN, NaN)"
proof -
  have n: "nrows sample_table = 5" by (simp add: sample_table_def)
  from detect_outliers_iqr_unflagged [OF sample_MentHlth_in sample_MentHlth refl refl,
      of sample_platform "Val (3 / 2)"]
  show ?thesis unfolding sample_MentHlth_iqr n by auto
qed



section \<open>Properties of the outputs of outlier.py\<close>

lemma filter_eq_distinct: "distinct cs \<Longrightarrow> c \<in> set cs \<Longrightarrow> filter (\<lambda>x. x = c) cs = [c]"
  by (induction cs) (auto simp: filter_empty_conv)

lemma true_indices_snoc:
  "true_indices (m @ [b]) = true_indices m @ (if b then [length m] else [])"
  by (auto simp: true_indices_def nth_append intro: filter_cong)

lemma length_true_indices: "length (true_indices m) = mask_sum m"
proof (induction m rule: rev_induct)
  case Nil
  show ?case by (simp add: true_indices_def mask_sum_def)
next
  case (snoc b m)
  then show ?case by (simp add: true_indices_snoc mask_sum_def)
qed

lemma sum_list_astype_int: "sum_list (astype_int m) = int (mask_sum m)"
  by (induction m) (auto simp: astype_int_def mask_sum_def)

lemma set_astype_int: "set (astype_int m) \<subseteq> {0, 1}"
  by (auto simp: astype_int_def)

lemma summary_rows_single:
  "summary_rows [(meth, masks)] =
     map (\<lambda>(c, m). \<lparr>method_name = meth, column_name = c, n_outliers = mask_sum m,
                      pct_outliers = mask_pct m\<rparr>) masks"
  by (simp add: summary_rows_def)

lemma long_indices_single:
  "masks_to_long_indices [(meth, masks)] =
     concat (map (\<lambda>(c, m). map (\<lambda>i. \<lparr>idx_method = meth, idx_column = c, row_index = i\<rparr>)
       (true_indices m)) masks)"
  by (simp add: masks_to_long_indices_def)

lemma summary_filter:
  assumes "distinct cs" "c \<in> set cs"
  shows "filter (\<lambda>r. method_name r = meth \<and> column_name r = c)
           (map (\<lambda>(c, m). \<lparr>method_name = meth, column_name = c, n_outliers = mask_sum m,
                      pct_outliers = mask_pct m\<rparr>) (map (\<lambda>c. (c, g c)) cs))
         = [\<lparr>method_name = meth, column_name = c, n_outliers = mask_sum (g c), pct_outliers = mask_pct (g c)\<rparr>]"
proof -
  have "filter (\<lambda>r. method_name r = meth \<and> column_name r = c)
           (map (\<lambda>(c, m). \<lparr>method_name = meth, column_name = c, n_outliers = mask_sum m,
                      pct_outliers = mask_pct m\<rparr>) (map (\<lambda>c. (c, g c)) cs))
      = map (\<lambda>c. \<lparr>method_name = meth, column_name = c, n_outliers = mask_sum (g c), pct_outliers = mask_pct (g c)\<rparr>)
          (filter (\<lambda>x. x = c) cs)"
    by (simp add: filter_map comp_def)
  then show ?thesis using assms by (simp add: filter_eq_distinct)
qed

lemma indices_filter:
  assumes "distinct cs" "c \<in> set cs"
  shows "filter (\<lambda>x. idx_method x = meth \<and> idx_column x = c)
           (concat (map (\<lambda>(c, m). map (\<lambda>i. \<lparr>idx_method = meth, idx_column = c, row_index = i\<rparr>)
              (true_indices m)) (map (\<lambda>c. (c, g c)) cs)))
         = map (\<lambda>i. \<lparr>idx_method = meth, idx_column = c, row_index = i\<rparr>) (true_indices (g c))"
  using assms
proof (induction cs)
  case Nil
  then show ?case by simp
next
  case (Cons a cs)
  show ?case
  proof (cases "a = c")
    case True
    then have "c \<notin> set cs" using Cons.prems by simp
    then have "filter (\<lambda>x. idx_method x = meth \<and> idx_column x = c)
           (concat (map (\<lambda>(c, m). map (\<lambda>i. \<lparr>idx_method = meth, idx_column = c, row_index = i\<rparr>)
              (true_indices m)) (map (\<lambda>c. (c, g c)) cs))) = []"
      by (auto simp: filter_empty_conv)
    then show ?thesis using True by (simp add: filter_map comp_def)
  next
    case False
    then show ?thesis using Cons by (simp add: filter_map comp_def)
  qed
qed

lemma add_flag_columns_other:
  "key \<notin> (\<lambda>c. c @ ''__iqr_outlier'') ` fst ` set masks \<Longrightarrow>
     map_of (add_flag_columns masks fd) key = map_of fd key"
  by (induction masks arbitrary: fd) (auto simp: update_conv')

lemma add_flag_columns_lookup:
  "distinct (map fst masks) \<Longrightarrow> (c, m) \<in> set masks \<Longrightarrow>
     map_of (add_flag_columns masks fd) (c @ ''__iqr_outlier'') = Some (IntCol (astype_int m))"
proof (induction masks arbitrary: fd)
  case Nil
  then show ?case by simp
next
  case (Cons a masks)
  obtain c' m' where a: "a = (c', m')" by (cases a)
  show ?case
  proof (cases "c' = c")
    case True
    then have m: "m' = m" and notin: "c \<notin> fst ` set masks"
      using Cons.prems a by (auto simp: rev_image_eqI)
    have "c @ ''__iqr_outlier'' \<notin> (\<lambda>c. c @ ''__iqr_outlier'') ` fst ` set masks"
      using notin by auto
    then show ?thesis using a True m by (simp add: add_flag_columns_other update_conv')
  next
    case False
    then have "(c, m) \<in> set masks" "distinct (map fst masks)" using Cons.prems a by auto
    then show ?thesis using a Cons.IH by simp
  qed
qed

lemma write_all_ok:
  "write_all P fs w = (None, w') \<Longrightarrow>
     w' = w\<lparr>written := written w @ fs\<rparr>"
  by (induction P fs w rule: write_all.induct) (auto split: option.splits)

lemma write_all_error:
  "write_all P fs w = (Some e, w') \<Longrightarrow> \<exists>p\<in>fst ` set fs. write_error P p = Some e"
  by (induction P fs w rule: write_all.induct) (auto split: option.splits)

lemma flag_name_not_any: "c @ ''__iqr_outlier'' \<noteq> ''__any_outlier_flag''"
proof
  assume "c @ ''__iqr_outlier'' = ''__any_outlier_flag''"
  then have "last (c @ ''__iqr_outlier'') = last ''__any_outlier_flag''" by simp
  then show False by simp
qed

lemma summarize_masks_single:
  assumes "masks \<noteq> []"
  shows "summarize_masks [(meth, masks)] =
     Inr (sort_key (\<lambda>r. (column_name r, method_name r))
       (map (\<lambda>(c, m). \<lparr>method_name = meth, column_name = c, n_outliers = mask_sum m,
                      pct_outliers = mask_pct m\<rparr>) masks))"
  using assms by (simp add: summarize_masks_def summary_rows_single Let_def)

lemma summary_lookup:
  assumes "distinct cs" "c \<in> set cs"
  shows "filter (\<lambda>r. method_name r = meth \<and> column_name r = c)
           (sort_key (\<lambda>r. (column_name r, method_name r))
             (map (\<lambda>(c, m). \<lparr>method_name = meth, column_name = c, n_outliers = mask_sum m,
                      pct_outliers = mask_pct m\<rparr>) (map (\<lambda>c. (c, g c)) cs)))
         = [\<lparr>method_name = meth, column_name = c, n_outliers = mask_sum (g c), pct_outliers = mask_pct (g c)\<rparr>]"
proof -
  have eq: "(\<lambda>r. method_name r = meth \<and> column_name r = c) =
        (\<lambda>r. (column_name r, method_name r) = (c, meth))"
    by auto
  show ?thesis
    unfolding eq sort_key_stable
    using summary_filter [OF assms, of meth g] unfolding eq .
qed

lemma endswith_append: "endswith (c @ suf) suf"
  by (simp add: endswith_def)

lemma add_flag_columns_fresh:
  "distinct (map fst masks) \<Longrightarrow>
   \<forall>c\<in>fst ` set masks. c @ ''__iqr_outlier'' \<notin> fst ` set fd \<Longrightarrow>
   add_flag_columns masks fd =
     fd @ map (\<lambda>(c, m). (c @ ''__iqr_outlier'', IntCol (astype_int m))) masks"
proof (induction masks arbitrary: fd)
  case Nil
  then show ?case by simp
next
  case (Cons a masks)
  obtain c m where a: "a = (c, m)" by (cases a)
  have fresh: "c @ ''__iqr_outlier'' \<notin> fst ` set fd" using Cons.prems(2) a by simp
  have step: "AList.update (c @ ''__iqr_outlier'') (IntCol (astype_int m)) fd =
      fd @ [(c @ ''__iqr_outlier'', IntCol (astype_int m))]"
    using fresh by (rule update_fresh)
  have d: "distinct (map fst masks)" and cn: "c \<notin> fst ` set masks"
    using Cons.prems(1) a by auto
  have "\<forall>c'\<in>fst ` set masks. c' @ ''__iqr_outlier'' \<notin>
      fst ` set (fd @ [(c @ ''__iqr_outlier'', IntCol (astype_int m))])"
    using Cons.prems(2) cn by auto
  from Cons.IH [OF d this] show ?case using a step by simp
qed

lemma nrows_append: "df \<noteq> [] \<Longrightarrow> nrows (df @ xs) = nrows df"
  by (cases df) auto

lemma flag_cols_append:
  assumes "\<forall>name\<in>set (columns df). \<not> endswith name ''__iqr_outlier''"
  shows "flag_cols (df @ map (\<lambda>(c, m). (c @ ''__iqr_outlier'', IntCol (astype_int m))) masks)
     = map (\<lambda>(c, m). c @ ''__iqr_outlier'') masks"
proof -
  have a: "filter (\<lambda>c. endswith c ''__iqr_outlier'') (map fst df) = []"
    using assms by (auto simp: columns_def filter_empty_conv)
  have b: "filter (\<lambda>c. endswith c ''__iqr_outlier'')
      (map fst (map (\<lambda>(c, m). (c @ ''__iqr_outlier'', IntCol (astype_int m))) masks))
      = map (\<lambda>(c, m). c @ ''__iqr_outlier'') masks"
    by (induction masks) (auto simp: endswith_append)
  show ?thesis unfolding flag_cols_def columns_def using a b by simp
qed

lemma astype_int_nth: "i < length m \<Longrightarrow> astype_int m ! i = (if m ! i then 1 else 0)"
  by (simp add: astype_int_def)

lemma row_sums_flags:
  assumes "\<forall>(c, m)\<in>set ms. map_of fd (c @ ''__iqr_outlier'') = Some (IntCol (astype_int m)) \<and>
             length m = nrows fd"
  shows "row_sums fd (map (\<lambda>(c, m). c @ ''__iqr_outlier'') ms) =
     Inr (map (\<lambda>i. sum_list (map (\<lambda>(c, m). if m ! i then 1 else 0) ms)) [0 ..< nrows fd])"
  using assms
proof (induction ms)
  case Nil
  show ?case by (simp add: map_replicate_trivial [symmetric] del: map_replicate_trivial) 
next
  case (Cons a ms)
  obtain c m where a: "a = (c, m)" by (cases a)
  have look: "map_of fd (c @ ''__iqr_outlier'') = Some (IntCol (astype_int m))"
    and len: "length m = nrows fd"
    using Cons.prems a by auto
  have ih: "row_sums fd (map (\<lambda>(c, m). c @ ''__iqr_outlier'') ms) =
     Inr (map (\<lambda>i. sum_list (map (\<lambda>(c, m). if m ! i then 1 else 0) ms)) [0 ..< nrows fd])"
    using Cons by simp
  have "map (\<lambda>(v, a). v + a)
          (zip (map rat_of_int (astype_int m))
               (map (\<lambda>i. sum_list (map (\<lambda>(c, m). if m ! i then 1 else 0) ms)) [0 ..< nrows fd]))
      = map (\<lambda>i. sum_list (map (\<lambda>(c, m). if m ! i then 1 else 0) ((c, m) # ms))) [0 ..< nrows fd]"
    by (rule nth_equalityI) (simp_all add: len astype_int_def)
  then show ?case using a look ih by simp
qed

lemma sum_flags_pos:
  "(0::rat) < sum_list (map (\<lambda>(c, m). if m ! i then 1 else 0) ms) \<longleftrightarrow> (\<exists>(c, m)\<in>set ms. m ! i)"
proof (induction ms)
  case Nil
  show ?case by simp
next
  case (Cons a ms)
  have nn: "(0::rat) \<le> sum_list (map (\<lambda>(c, m). if m ! i then 1 else 0) ms)"
    by (rule sum_list_nonneg) auto
  obtain c m where a: "a = (c, m)" by (cases a)
  show ?case using Cons nn a by (cases "m ! i") auto
qed

lemma length_to_numeric: "length (to_numeric P col) = col_len col"
  by (cases col) auto

lemma wf_col_len: "wf_frame df \<Longrightarrow> map_of df c = Some col \<Longrightarrow> col_len col = nrows df"
  by (auto simp: wf_frame_def list_all_iff dest!: map_of_SomeD)

lemma iqr_column_length:
  "wf_frame df \<Longrightarrow> iqr_column P df k c = Inr (m, b) \<Longrightarrow> length m = nrows df"
  by (auto simp: iqr_column_def Let_def length_to_numeric wf_col_len
      split: option.splits if_splits)

text \<open>What a run of \<open>main\<close> that returns after detecting something has written.\<close>

lemma outlier_body_returned:
  assumes run: "outlier_body P in_path outdir k df w = (Returned, w')"
    and ne: "continuous_cols df \<noteq> []"
  shows "\<exists>masks bounds summary flagged.
     detect_outliers_iqr P df (continuous_cols df) k = Inr (masks, bounds) \<and>
     summarize_masks [(''iqr_outlier'', masks)] = Inr summary \<and>
     flagged_table [(''iqr_outlier'', masks)] df = Inr flagged \<and>
     written w' = written w @
       [(path_join outdir ''outliers_flagged.csv'', TableCsv flagged),
        (path_join outdir ''outliers_summary.csv'', SummaryCsv summary),
        (path_join outdir ''outliers_indices.csv'',
           IndicesCsv (masks_to_long_indices [(''iqr_outlier'', masks)])),
        (path_join outdir ''outliers_meta.json'',
           MetaJson in_path (nrows df, length df) (continuous_cols df) k bounds)]"
proof -
  obtain masks bounds where d: "detect_outliers_iqr P df (continuous_cols df) k = Inr (masks, bounds)"
    using detect_outliers_iqr_continuous [of df P k] by blast
  obtain summary where sm: "summarize_masks [(''iqr_outlier'', masks)] = Inr summary"
    using run ne d by (cases "summarize_masks [(''iqr_outlier'', masks)]")
      (auto simp: outlier_body_def Let_def)
  obtain flagged where ft: "flagged_table [(''iqr_outlier'', masks)] df = Inr flagged"
    using run ne d sm by (cases "flagged_table [(''iqr_outlier'', masks)] df")
      (auto simp: outlier_body_def Let_def)
  let ?files = "[(path_join outdir ''outliers_flagged.csv'', TableCsv flagged),
        (path_join outdir ''outliers_summary.csv'', SummaryCsv summary),
        (path_join outdir ''outliers_indices.csv'',
           IndicesCsv (masks_to_long_indices [(''iqr_outlier'', masks)])),
        (path_join outdir ''outliers_meta.json'',
           MetaJson in_path (nrows df, length df) (continuous_cols df) k bounds)]"
  let ?w2 = "print Report (print (InfoVariables (continuous_cols df)) w)"
  have body: "outlier_body P in_path outdir k df w =
      (case write_all P ?files ?w2 of
         (Some e, w3) \<Rightarrow> (Raised e, w3)
       | (None, w3) \<Rightarrow> (Returned, print (OkSaved outdir) w3))"
    using ne d sm ft by (simp add: outlier_body_def Let_def)
  obtain w3 where wa: "write_all P ?files ?w2 = (None, w3)" and w': "w' = print (OkSaved outdir) w3"
    using run unfolding body by (auto split: prod.splits option.splits)
  have "w3 = ?w2\<lparr>written := written ?w2 @ ?files\<rparr>"
    using wa by (rule write_all_ok)
  then have "written w' = written w @ ?files"
    using w' by (simp add: print_def)
  with d sm ft show ?thesis by blast
qed

text \<open>
  C10. When \<open>main\<close> returns after writing its outputs, they agree on every detected
  column \<open>c\<close>: the summary has exactly one row for \<open>(iqr_outlier, c)\<close>, its \<open>n_outliers\<close> is
  the number of true entries of the mask of \<open>c\<close>, the long-form table has that many rows
  for \<open>(iqr_outlier, c)\<close>, and the column \<open>c__iqr_outlier\<close> of the flagged table holds
  zeros and ones whose sum is that number.
\<close>

theorem outlier_outputs_consistent:
  assumes run: "outlier_body P in_path outdir k df w = (Returned, w')"
    and c: "c \<in> set (continuous_cols df)"
  shows "\<exists>masks bounds flagged summary indices m r flags.
     detect_outliers_iqr P df (continuous_cols df) k = Inr (masks, bounds) \<and>
     map_of masks c = Some m \<and>
     written w' = written w @
       [(path_join outdir ''outliers_flagged.csv'', TableCsv flagged),
        (path_join outdir ''outliers_summary.csv'', SummaryCsv summary),
        (path_join outdir ''outliers_indices.csv'', IndicesCsv indices),
        (path_join outdir ''outliers_meta.json'',
           MetaJson in_path (nrows df, length df) (continuous_cols df) k bounds)] \<and>
     filter (\<lambda>r. method_name r = ''iqr_outlier'' \<and> column_name r = c) summary = [r] \<and>
     n_outliers r = mask_sum m \<and>
     length (filter (\<lambda>x. idx_method x = ''iqr_outlier'' \<and> idx_column x = c) indices) = mask_sum m \<and>
     map_of flagged (c @ ''__iqr_outlier'') = Some (IntCol flags) \<and>
     set flags \<subseteq> {0, 1} \<and> sum_list flags = int (mask_sum m)"
proof -
  define cs where "cs = continuous_cols df"
  have dist: "distinct cs" and cin: "c \<in> set cs" and ne: "continuous_cols df \<noteq> []"
    using c distinct_continuous_cols by (auto simp: cs_def)
  obtain f where d: "detect_outliers_iqr P df cs k =
       Inr (map (\<lambda>c. (c, fst (f c))) cs, map (\<lambda>c. (c, snd (f c))) cs)"
    using detect_outliers_iqr_continuous [of df P k] unfolding cs_def by blast
  define masks where "masks = map (\<lambda>c. (c, fst (f c))) cs"
  define bounds where "bounds = map (\<lambda>c. (c, snd (f c))) cs"
  define mg where "mg = [(''iqr_outlier'', masks)]"
  obtain summary flagged where sm: "summarize_masks mg = Inr summary"
    and ft: "flagged_table mg df = Inr flagged"
    and wr: "written w' = written w @
       [(path_join outdir ''outliers_flagged.csv'', TableCsv flagged),
        (path_join outdir ''outliers_summary.csv'', SummaryCsv summary),
        (path_join outdir ''outliers_indices.csv'', IndicesCsv (masks_to_long_indices mg)),
        (path_join outdir ''outliers_meta.json'',
           MetaJson in_path (nrows df, length df) (continuous_cols df) k bounds)]"
    using outlier_body_returned [OF run ne] d
    by (auto simp: cs_def masks_def bounds_def mg_def)
  have mne: "masks \<noteq> []" using cin by (auto simp: masks_def)
  have summary: "summary = sort_key (\<lambda>r. (column_name r, method_name r))
       (map (\<lambda>(c, m). \<lparr>method_name = ''iqr_outlier'', column_name = c, n_outliers = mask_sum m,
                      pct_outliers = mask_pct m\<rparr>) masks)"
    using sm summarize_masks_single [OF mne, of "''iqr_outlier''"] by (simp add: mg_def)
  have mc: "map_of masks c = Some (fst (f c))"
    using cin by (simp add: masks_def map_of_tagged)
  let ?row = "\<lparr>method_name = ''iqr_outlier'', column_name = c, n_outliers = mask_sum (fst (f c)),
        pct_outliers = mask_pct (fst (f c))\<rparr>"
  have sl: "filter (\<lambda>r. method_name r = ''iqr_outlier'' \<and> column_name r = c) summary = [?row]"
    unfolding summary masks_def by (rule summary_lookup [OF dist cin])
  have il: "length (filter (\<lambda>x. idx_method x = ''iqr_outlier'' \<and> idx_column x = c)
      (masks_to_long_indices mg)) = mask_sum (fst (f c))"
    unfolding mg_def long_indices_single masks_def indices_filter [OF dist cin]
    by (simp add: length_true_indices)
  have dm: "distinct (map fst masks)" and inm: "(c, fst (f c)) \<in> set masks"
    using dist cin by (auto simp: masks_def comp_def)
  obtain flags where fl: "flagged = AList.update ''__any_outlier_flag'' (IntCol flags) (add_flag_columns masks df)"
    using ft by (auto simp: flagged_table_def mg_def Let_def split: sum.splits)
  have fc: "map_of flagged (c @ ''__iqr_outlier'') = Some (IntCol (astype_int (fst (f c))))"
    unfolding fl by (simp add: update_conv' flag_name_not_any add_flag_columns_lookup [OF dm inm])
  show ?thesis
  proof (intro exI conjI)
    show "detect_outliers_iqr P df (continuous_cols df) k = Inr (masks, bounds)"
      using d by (simp add: cs_def masks_def bounds_def)
    show "map_of masks c = Some (fst (f c))" by (rule mc)
    show "written w' = written w @
       [(path_join outdir ''outliers_flagged.csv'', TableCsv flagged),
        (path_join outdir ''outliers_summary.csv'', SummaryCsv summary),
        (path_join outdir ''outliers_indices.csv'', IndicesCsv (masks_to_long_indices mg)),
        (path_join outdir ''outliers_meta.json'',
           MetaJson in_path (nrows df, length df) (continuous_cols df) k bounds)]"
      by (rule wr)
    show "filter (\<lambda>r. method_name r = ''iqr_outlier'' \<and> column_name r = c) summary = [?row]"
      by (rule sl)
    show "n_outliers ?row = mask_sum (fst (f c))" by simp
    show "length (filter (\<lambda>x. idx_method x = ''iqr_outlier'' \<and> idx_column x = c)
      (masks_to_long_indices mg)) = mask_sum (fst (f c))" by (rule il)
    show "map_of flagged (c @ ''__iqr_outlier'') = Some (IntCol (astype_int (fst (f c))))"
      by (rule fc)
    show "set (astype_int (fst (f c))) \<subseteq> {0, 1}" by (rule set_astype_int)
    show "sum_list (astype_int (fst (f c))) = int (mask_sum (fst (f c)))"
      by (rule sum_list_astype_int)
  qed
qed

lemma sample_outlier_run:
  "fst (outlier_body sample_platform ''data.csv'' ''out'' (Val (3 / 2)) sample_table initial_world)
     = Returned"
  by code_simp

theorem outlier_outputs_consistent_witness:
  "\<exists>flagged summary indices r flags.
     written (snd (outlier_body sample_platform ''data.csv'' ''out'' (Val (3 / 2)) sample_table
                initial_world)) =
       [(''out/outliers_flagged.csv'', TableCsv flagged),
        (''out/outliers_summary.csv'', SummaryCsv summary),
        (''out/outliers_indices.csv'', IndicesCsv indices),
        (''out/outliers_meta.json'',
           MetaJson ''data.csv'' (5, 4) [''BMI'', ''MentHlth''] (Val (3 / 2))
             [(''BMI'', Val (- 1), Val 7), (''MentHlth'', NaN, NaN)])] \<and>
     filter (\<lambda>r. method_name r = ''iqr_outlier'' \<and> column_name r = ''BMI'') summary = [r] \<and>
     length (filter (\<lambda>x. idx_method x = ''iqr_outlier'' \<and> idx_column x = ''BMI'') indices)
       = n_outliers r \<and>
     map_of flagged ''BMI__iqr_outlier'' = Some (IntCol flags) \<and>
     sum_list flags = int (n_outliers r)"
proof -
  let ?run = "outlier_body sample_platform ''data.csv'' ''out'' (Val (3 / 2)) sample_table initial_world"
  have run: "?run = (Returned, snd ?run)"
    using sample_outlier_run by (metis prod.collapse)
  have cc: "continuous_cols sample_table = [''BMI'', ''MentHlth'']"
    by (simp add: continuous_cols_def DEFAULT_CONTINUOUS_def columns_def sample_table_def)
  have b: "detect_outliers_iqr sample_platform sample_table [''BMI'', ''MentHlth''] (Val (3 / 2)) =
      Inr ([(''BMI'', [False, False, False, True, False]),
            (''MentHlth'', [False, False, False, False, False])],
           [(''BMI'', Val (- 1), Val 7), (''MentHlth'', NaN, NaN)])"
    by code_simp
  from outlier_outputs_consistent [OF run sample_BMI_in]
  show ?thesis
    unfolding cc b
    by (auto simp: path_join_def initial_world_def sample_table_def)
qed

text \<open>
  C9, as amended. For a table read from a file whose columns include one of the fixed
  list, none named \<open>__any_outlier_flag\<close> and none with a name ending in
  \<open>__iqr_outlier\<close>: the flagged table is the input table, column for column, followed by
  one 0/1 column \<open>c__iqr_outlier\<close> for each detected column \<open>c\<close> in order and by
  \<open>__any_outlier_flag\<close>, which is 1 on exactly the rows where some mask is true; a run of
  \<open>main\<close> that returns has written this table first.
\<close>

theorem flagged_table_copy:
  assumes wf: "wf_frame df"
    and ne: "continuous_cols df \<noteq> []"
    and nosuf: "\<forall>name\<in>set (columns df). \<not> endswith name ''__iqr_outlier''"
    and noany: "''__any_outlier_flag'' \<notin> set (columns df)"
  shows "\<exists>masks bounds anyf flagged.
     detect_outliers_iqr P df (continuous_cols df) k = Inr (masks, bounds) \<and>
     map fst masks = continuous_cols df \<and>
     (\<forall>(c, m)\<in>set masks. length m = nrows df) \<and>
     flagged_table [(''iqr_outlier'', masks)] df = Inr flagged \<and>
     flagged = df @ map (\<lambda>(c, m). (c @ ''__iqr_outlier'', IntCol (astype_int m))) masks
                  @ [(''__any_outlier_flag'', IntCol anyf)] \<and>
     length anyf = nrows df \<and>
     (\<forall>i<nrows df. anyf ! i = (if \<exists>(c, m)\<in>set masks. m ! i then 1 else 0)) \<and>
     (\<forall>w'. outlier_body P in_path outdir k df w = (Returned, w') \<longrightarrow>
        written w' ! length (written w) = (path_join outdir ''outliers_flagged.csv'', TableCsv flagged))"
proof -
  define cs where "cs = continuous_cols df"
  obtain f where fc: "\<forall>c\<in>set cs. iqr_column P df k c = Inr (f c)"
    and d: "detect_outliers_iqr P df cs k =
       Inr (map (\<lambda>c. (c, fst (f c))) cs, map (\<lambda>c. (c, snd (f c))) cs)"
    using detect_outliers_iqr_continuous [of df P k] unfolding cs_def by blast
  define masks where "masks = map (\<lambda>c. (c, fst (f c))) cs"
  define bounds where "bounds = map (\<lambda>c. (c, snd (f c))) cs"
  define flags where "flags = map (\<lambda>(c, m). (c @ ''__iqr_outlier'', IntCol (astype_int m))) masks"
  define anyf :: "int list" where
    "anyf = map (\<lambda>i. if \<exists>(c, m)\<in>set masks. m ! i then 1 else 0) [0 ..< nrows df]"
  have keys: "map fst masks = cs" by (simp add: masks_def comp_def)
  have dist: "distinct (map fst masks)"
    unfolding keys cs_def by (rule distinct_continuous_cols)
  have dfne: "df \<noteq> []"
    using ne by (auto simp: continuous_cols_def columns_def)
  have lens: "\<forall>(c, m)\<in>set masks. length m = nrows df"
  proof -
    have "length (fst (f c)) = nrows df" if "c \<in> set cs" for c
    proof -
      have "iqr_column P df k c = Inr (fst (f c), snd (f c))" using fc that by simp
      then show ?thesis using wf by (rule iqr_column_length [rotated])
    qed
    then show ?thesis by (auto simp: masks_def)
  qed
  have fresh: "\<forall>c\<in>fst ` set masks. c @ ''__iqr_outlier'' \<notin> fst ` set df"
    using nosuf endswith_append by (fastforce simp: columns_def)
  have afc: "add_flag_columns masks df = df @ flags"
    unfolding flags_def by (rule add_flag_columns_fresh [OF dist fresh])
  have fcols: "flag_cols (df @ flags) = map (\<lambda>(c, m). c @ ''__iqr_outlier'') masks"
    unfolding flags_def by (rule flag_cols_append [OF nosuf])
  have mne: "masks \<noteq> []" using ne by (simp add: masks_def cs_def)
  have look: "\<forall>(c, m)\<in>set masks.
      map_of (df @ flags) (c @ ''__iqr_outlier'') = Some (IntCol (astype_int m)) \<and>
      length m = nrows (df @ flags)"
  proof (intro ballI, clarify)
    fix c m assume cm: "(c, m) \<in> set masks"
    have "map_of (add_flag_columns masks df) (c @ ''__iqr_outlier'') = Some (IntCol (astype_int m))"
      using dist cm by (rule add_flag_columns_lookup)
    moreover have "length m = nrows (df @ flags)"
      using lens cm dfne by (auto simp: nrows_append)
    ultimately show "map_of (df @ flags) (c @ ''__iqr_outlier'') = Some (IntCol (astype_int m)) \<and>
      length m = nrows (df @ flags)"
      unfolding afc by simp
  qed
  have rs: "row_sums (df @ flags) (flag_cols (df @ flags)) =
      Inr (map (\<lambda>i. sum_list (map (\<lambda>(c, m). if m ! i then 1 else 0) masks)) [0 ..< nrows df])"
    unfolding fcols using row_sums_flags [OF look] dfne by (simp add: nrows_append)
  have aof: "any_outlier_flag (df @ flags) = Inr anyf"
    unfolding any_outlier_flag_def rs
    using mne by (simp add: fcols anyf_def astype_int_def sum_flags_pos)
  have anyfresh: "''__any_outlier_flag'' \<notin> fst ` set (df @ flags)"
    using noany flag_name_not_any [symmetric] by (auto simp: columns_def flags_def)
  have ft: "flagged_table [(''iqr_outlier'', masks)] df =
      Inr (df @ flags @ [(''__any_outlier_flag'', IntCol anyf)])"
    using update_fresh [OF anyfresh, of "IntCol anyf"]
    by (simp add: flagged_table_def Let_def afc aof)
  have wr: "written w' ! length (written w) =
      (path_join outdir ''outliers_flagged.csv'',
       TableCsv (df @ flags @ [(''__any_outlier_flag'', IntCol anyf)]))"
    if run: "outlier_body P in_path outdir k df w = (Returned, w')" for w'
    using outlier_body_returned [OF run ne] d ft
    by (auto simp: cs_def masks_def bounds_def)
  show ?thesis
  proof (intro exI conjI)
    show "detect_outliers_iqr P df (continuous_cols df) k = Inr (masks, bounds)"
      using d by (simp add: cs_def masks_def bounds_def)
    show "map fst masks = continuous_cols df" using keys by (simp add: cs_def)
    show "\<forall>(c, m)\<in>set masks. length m = nrows df" by (rule lens)
    show "flagged_table [(''iqr_outlier'', masks)] df =
      Inr (df @ flags @ [(''__any_outlier_flag'', IntCol anyf)])" by (rule ft)
    show "df @ flags @ [(''__any_outlier_flag'', IntCol anyf)] =
       df @ map (\<lambda>(c, m). (c @ ''__iqr_outlier'', IntCol (astype_int m))) masks
                  @ [(''__any_outlier_flag'', IntCol anyf)]"
      by (simp add: flags_def)
    show "length anyf = nrows df" by (simp add: anyf_def)
    show "\<forall>i<nrows df. anyf ! i = (if \<exists>(c, m)\<in>set masks. m ! i then 1 else 0)"
      by (simp add: anyf_def)
    show "\<forall>w'. outlier_body P in_path outdir k df w = (Returned, w') \<longrightarrow>
        written w' ! length (written w) =
          (path_join outdir ''outliers_flagged.csv'',
           TableCsv (df @ flags @ [(''__any_outlier_flag'', IntCol anyf)]))"
      using wr by blast
  qed
qed

theorem flagged_table_copy_witness:
  "\<exists>masks bounds anyf.
     detect_outliers_iqr sample_platform sample_table (continuous_cols sample_table) (Val (3 / 2))
       = Inr (masks, bounds) \<and>
     map fst masks = [''BMI'', ''MentHlth''] \<and>
     flagged_table [(''iqr_outlier'', masks)] sample_table =
       Inr (sample_table @ map (\<lambda>(c, m). (c @ ''__iqr_outlier'', IntCol (astype_int m))) masks
              @ [(''__any_outlier_flag'', IntCol anyf)]) \<and>
     length anyf = 5"
proof -
  have wf: "wf_frame sample_table"
    by (simp add: wf_frame_def columns_def sample_table_def)
  have cc: "continuous_cols sample_table = [''BMI'', ''MentHlth'']"
    by (simp add: continuous_cols_def DEFAULT_CONTINUOUS_def columns_def sample_table_def)
  have ne: "continuous_cols sample_table \<noteq> []" by (simp add: cc)
  have nosuf: "\<forall>name\<in>set (columns sample_table). \<not> endswith name ''__iqr_outlier''"
    by (simp add: columns_def sample_table_def endswith_def)
  have noany: "''__any_outlier_flag'' \<notin> set (columns sample_table)"
    by (simp add: columns_def sample_table_def)
  have n: "nrows sample_table = 5" by (simp add: sample_table_def)
  from flagged_table_copy [OF wf ne nosuf noany, of sample_platform "Val (3 / 2)"
      "''data.csv''" "''out''" initial_world]
  obtain masks bounds anyf flagged where
    "detect_outliers_iqr sample_platform sample_table (continuous_cols sample_table) (Val (3 / 2))
       = Inr (masks, bounds)"
    "map fst masks = [''BMI'', ''MentHlth'']"
    "flagged_table [(''iqr_outlier'', masks)] sample_table = Inr flagged"
    "flagged = sample_table @ map (\<lambda>(c, m). (c @ ''__iqr_outlier'', IntCol (astype_int m))) masks
              @ [(''__any_outlier_flag'', IntCol anyf)]"
    "length anyf = 5"
    unfolding cc n by (elim exE conjE)
  then show ?thesis unfolding cc by (intro exI conjI) simp_all
qed

text \<open>
  C9 as stated fails on a table that already has a column \<open>BMI__iqr_outlier\<close>: its
  values are replaced by the new flags.
\<close>

theorem flagged_table_overwrites_counterexample:
  "map_of flagged_input_table ''BMI__iqr_outlier'' = Some (IntCol [7, 7, 7, 7, 7]) \<and>
   outlier_body sample_platform ''flagged.csv'' ''out'' (Val (3 / 2)) flagged_input_table initial_world =
     (Returned,
      \<lparr>existing = [''data.csv''], reads = [],
       stdout = [InfoVariables [''BMI''], Report, OkSaved ''out''],
       stderr = [],
       written =
         [(''out/outliers_flagged.csv'',
           TableCsv [(''BMI'', IntCol [1, 2, 3, 100, 4]),
                     (''BMI__iqr_outlier'', IntCol [0, 0, 0, 1, 0]),
                     (''__any_outlier_flag'', IntCol [0, 0, 0, 1, 0])]),
          (''out/outliers_summary.csv'',
           SummaryCsv [\<lparr>method_name = ''iqr_outlier'', column_name = ''BMI'',
                         n_outliers = 1, pct_outliers = Val 20\<rparr>]),
          (''out/outliers_indices.csv'',
           IndicesCsv [\<lparr>idx_method = ''iqr_outlier'', idx_column = ''BMI'', row_index = 3\<rparr>]),
          (''out/outliers_meta.json'',
           MetaJson ''flagged.csv'' (5, 2) [''BMI''] (Val (3 / 2)) [(''BMI'', Val (- 1), Val 7)])]\<rparr>)"
  by code_simp



section \<open>Properties of the two test scripts\<close>



















section \<open>Properties of class_stats.py\<close>













lemma sample_categorical_cols: "categorical_cols sample_table = [''BMI'', ''MentHlth'', ''Smoker'']"
  by code_simp





section \<open>Properties of export_data.py and of the input check\<close>

text \<open>
  C4. \<open>export_features_targets\<close> returns normally on every dataset, also when a write
  raises. Without a data object, or without features and targets, it writes nothing and
  logs the one line that says so. With only one of the two, when the write of its file
  succeeds, it writes that file alone and logs the saved file and the line that
  \<open>combined.csv\<close> cannot be built because features or targets are missing.
\<close>

theorem export_skips_absent_sources:
  "export_features_targets P None outdir w = (Returned, log NoDataObject w) \<and>
   export_features_targets P (Some \<lparr>features = None, targets = None\<rparr>) outdir w =
     (Returned, log NeitherFeaturesNorTargets w) \<and>
   (write_error P (path_join outdir ''features.csv'') = None \<longrightarrow>
      export_features_targets P (Some \<lparr>features = Some f, targets = None\<rparr>) outdir w =
        (Returned,
         w\<lparr>stdout := stdout w @ [Log (SavedFeatures (nrows f) (length f)), Log CombinedSkipped],
           written := written w @ [(path_join outdir ''features.csv'', TableCsv f)]\<rparr>)) \<and>
   (write_error P (path_join outdir ''targets.csv'') = None \<longrightarrow>
      export_features_targets P (Some \<lparr>features = None, targets = Some t\<rparr>) outdir w =
        (Returned,
         w\<lparr>stdout := stdout w @ [Log (SavedTargets (nrows (to_frame t)) (length (to_frame t))),
                                  Log CombinedSkipped],
           written := written w @ [(path_join outdir ''targets.csv'', TableCsv (to_frame t))]\<rparr>)) \<and>
   fst (export_features_targets P d outdir w) = Returned"
proof (intro conjI impI)
  show "export_features_targets P None outdir w = (Returned, log NoDataObject w)"
    by (simp add: export_features_targets_def)
  show "export_features_targets P (Some \<lparr>features = None, targets = None\<rparr>) outdir w =
     (Returned, log NeitherFeaturesNorTargets w)"
    by (simp add: export_features_targets_def)
  show "export_features_targets P (Some \<lparr>features = Some f, targets = None\<rparr>) outdir w =
        (Returned,
         w\<lparr>stdout := stdout w @ [Log (SavedFeatures (nrows f) (length f)), Log CombinedSkipped],
           written := written w @ [(path_join outdir ''features.csv'', TableCsv f)]\<rparr>)"
    if "write_error P (path_join outdir ''features.csv'') = None"
    using that by (simp add: export_features_targets_def save_csv_def log_def print_def Let_def)
  show "export_features_targets P (Some \<lparr>features = None, targets = Some t\<rparr>) outdir w =
        (Returned,
         w\<lparr>stdout := stdout w @ [Log (SavedTargets (nrows (to_frame t)) (length (to_frame t))),
                                  Log CombinedSkipped],
           written := written w @ [(path_join outdir ''targets.csv'', TableCsv (to_frame t))]\<rparr>)"
    if "write_error P (path_join outdir ''targets.csv'') = None"
    using that by (simp add: export_features_targets_def save_csv_def log_def print_def Let_def)
  show "fst (export_features_targets P d outdir w) = Returned"
    by (simp add: export_features_targets_def Let_def split: option.splits prod.splits)
qed

theorem export_skips_absent_sources_witness:
  "export_features_targets sample_platform
     (Some \<lparr>features = Some [(''x'', IntCol [1, 2])], targets = None\<rparr>) ''out'' initial_world =
     (Returned,
      initial_world\<lparr>stdout := [Log (SavedFeatures 2 1), Log CombinedSkipped],
                    written := [(''out/features.csv'', TableCsv [(''x'', IntCol [1, 2])])]\<rparr>) \<and>
   export_features_targets sample_platform
     (Some \<lparr>features = None, targets = Some (TargetSeries None (IntCol [0, 1]))\<rparr>) ''out''
     initial_world =
     (Returned,
      initial_world\<lparr>stdout := [Log (SavedTargets 2 1), Log CombinedSkipped],
                    written := [(''out/targets.csv'', TableCsv [(''target'', IntCol [0, 1])])]\<rparr>)"
proof -
  have ok: "write_error sample_platform p = None" for p by (simp add: sample_platform_def)
  note t = export_skips_absent_sources [of sample_platform "''out''" initial_world
      "[(''x'', IntCol [1, 2])]" "TargetSeries None (IntCol [0, 1])"]
  have a: "export_features_targets sample_platform
     (Some \<lparr>features = Some [(''x'', IntCol [1, 2])], targets = None\<rparr>) ''out'' initial_world =
     (Returned,
      initial_world\<lparr>stdout := [Log (SavedFeatures 2 1), Log CombinedSkipped],
                    written := [(''out/features.csv'', TableCsv [(''x'', IntCol [1, 2])])]\<rparr>)"
    using t [THEN conjunct2, THEN conjunct2, THEN conjunct1, THEN mp, OF ok]
    by (simp add: initial_world_def path_join_def)
  have b: "export_features_targets sample_platform
     (Some \<lparr>features = None, targets = Some (TargetSeries None (IntCol [0, 1]))\<rparr>) ''out''
     initial_world =
     (Returned,
      initial_world\<lparr>stdout := [Log (SavedTargets 2 1), Log CombinedSkipped],
                    written := [(''out/targets.csv'', TableCsv [(''target'', IntCol [0, 1])])]\<rparr>)"
    using t [THEN conjunct2, THEN conjunct2, THEN conjunct2, THEN conjunct1, THEN mp, OF ok]
    by (simp add: initial_world_def path_join_def)
  show ?thesis using a b by simp
qed

text \<open>
  C3. With features \<open>y\<close> and \<open>y_target\<close> and a target \<open>y\<close>, the target is renamed to
  \<open>y_target\<close> and then assigned over the feature of that name: \<open>combined.csv\<close> has two
  columns, and its \<open>y_target\<close> holds the target's values, not the feature's.
\<close>

theorem export_collision_overwrites_feature:
  "export_features_targets sample_platform (Some colliding_data) ''out'' initial_world =
     (Returned,
      \<lparr>existing = [''data.csv''], reads = [],
       stdout = [Log (SavedFeatures 2 2), Log (SavedTargets 2 1),
                 Log (RenamedTargets [(''y'', ''y_target'')]), Log (SavedCombined 2 2)],
       stderr = [],
       written =
         [(''out/features.csv'', TableCsv [(''y'', IntCol [1, 2]), (''y_target'', IntCol [3, 4])]),
          (''out/targets.csv'', TableCsv [(''y'', IntCol [0, 1])]),
          (''out/combined.csv'', TableCsv [(''y'', IntCol [1, 2]), (''y_target'', IntCol [0, 1])])]\<rparr>)"
  by code_simp






end
